theory Spec2Isabelle
  imports Complex_Main
begin

section \<open>The image to PDF converter (src/app.py)\<close>

text \<open>
  The program is one script that runs from top to bottom: it loads the uploaded files,
  computes size estimates for three fixed quality presets, and, when the button is
  pressed, downscales the loaded images and writes them into one PDF held in memory.

  Conventions of the embedding.
  \<^item> Python's unbounded \<open>int\<close> is \<open>int\<close>. A scale factor is a Python \<open>float\<close>; it is
    modelled by an exact rational. The only scale factors the script ever uses are
    \<open>1.0\<close>, \<open>0.5\<close> and \<open>0.25\<close>: they are dyadic, and the product of an integer below
    \<open>2 ^ 53\<close> with one of them is exact in binary floating point, so on the values the
    script uses the rational computation is the floating-point one.
  \<^item> PIL image objects live in an explicit store (a list of objects, the address of an
    object being its index), and the lists \<open>images\<close> and \<open>processed\<close> hold addresses:
    \<open>processed.append(im)\<close> shares the object, \<open>im.resize(...)\<close> creates a new one.
  \<^item> The imaging library is not part of the repository. Its four entry points that the
    script calls are parameters of the model (record \<open>pil\<close>); each may raise, and a
    raised exception is the \<open>Inl\<close> branch of a sum.
  \<^item> What the script shows on the page is the ordered list \<open>ui\<close> of the widgets it
    emits. The text of the size estimates inside the expander and the emoji prefixes
    of the messages are not modelled.
\<close>

subsection \<open>Data\<close>

text \<open>An uploaded file: \<open>uploaded_file.name\<close>, \<open>uploaded_file.size\<close> and its bytes.\<close>

record uploaded_file =
  uf_name :: string
  uf_size :: int
  uf_data :: "nat list"

text \<open>A PIL image: \<open>img.mode\<close>, \<open>img.size\<close> (width, height) and its pixel data.\<close>

record image =
  mode :: string
  im_size :: "int \<times> int"
  im_data :: "nat list"

type_synonym ref = nat
type_synonym store = "image list"

text \<open>Exceptions, and \<open>str(e)\<close> as the f-strings of the script print it.\<close>

datatype exn = IndexError | KeyError string | LibError string

fun str :: "exn \<Rightarrow> string" where
  "str IndexError = ''list index out of range''"
| "str (KeyError k) = CHR 0x27 # k @ [CHR 0x27]"
| "str (LibError m) = m"

text \<open>
  The imaging library, as far as the script calls it:
  \<^item> \<open>Image_open f\<close> is \<open>Image.open(uploaded_file)\<close>;
  \<^item> \<open>convert img m\<close> is \<open>img.convert(m)\<close>;
  \<^item> \<open>resize_LANCZOS img sz\<close> is the pixel data of \<open>img.resize(sz, Image.LANCZOS)\<close>;
  \<^item> \<open>save_fault img res\<close> is the exception, if any, that the PDF encoder raises when it
    writes \<open>img\<close> as a page with \<open>resolution=res\<close>.
\<close>

record pil =
  Image_open :: "uploaded_file \<Rightarrow> exn + image"
  convert :: "image \<Rightarrow> string \<Rightarrow> exn + image"
  resize_LANCZOS :: "image \<Rightarrow> int \<times> int \<Rightarrow> exn + nat list"
  save_fault :: "image \<Rightarrow> int \<Rightarrow> exn option"

text \<open>One page of the written document: the image it embeds and its resolution tag.\<close>

record page =
  page_image :: image
  page_resolution :: int

text \<open>The widgets the script emits, in order.\<close>

datatype widget =
    StError string
  | StInfo string
  | StSuccess string
  | StDownload string "page list" string string

text \<open>The variables of the script that the loops update.\<close>

record script_state =
  heap :: store
  images :: "ref list"
  total_image_size_bytes :: int
  ui :: "widget list"

definition alloc :: "store \<Rightarrow> image \<Rightarrow> ref \<times> store" where
  "alloc h img = (length h, h @ [img])"

subsection \<open>Loading (lines 24-37)\<close>

text \<open>The body of the \<open>try\<close>, up to the image that is appended.\<close>

definition open_rgb :: "pil \<Rightarrow> uploaded_file \<Rightarrow> exn + image" where
  "open_rgb L uploaded =
     (case Image_open L uploaded of
        Inl e \<Rightarrow> Inl e
      | Inr img \<Rightarrow> if mode img \<noteq> ''RGB'' then convert L img ''RGB'' else Inr img)"

definition load_one :: "pil \<Rightarrow> uploaded_file \<Rightarrow> script_state \<Rightarrow> script_state" where
  "load_one L uploaded s =
     (case open_rgb L uploaded of
        Inr img \<Rightarrow>
          (case alloc (heap s) img of
             (r, h) \<Rightarrow> s\<lparr>heap := h, images := images s @ [r],
                         total_image_size_bytes := total_image_size_bytes s + uf_size uploaded\<rparr>)
      | Inl e \<Rightarrow>
          s\<lparr>ui := ui s @ [StError (''Error loading image '' @ uf_name uploaded @ '': '' @ str e)]\<rparr>)"

fun load_loop :: "pil \<Rightarrow> uploaded_file list \<Rightarrow> script_state \<Rightarrow> script_state" where
  "load_loop L [] s = s"
| "load_loop L (uploaded # rest) s = load_loop L rest (load_one L uploaded s)"

definition initial_state :: script_state where
  "initial_state = \<lparr>heap = [], images = [], total_image_size_bytes = 0, ui = []\<rparr>"

definition load_images :: "pil \<Rightarrow> uploaded_file list \<Rightarrow> script_state" where
  "load_images L uploaded_files = load_loop L uploaded_files initial_state"

subsection \<open>Presets and the size estimate (lines 42-60)\<close>

record preset =
  scale :: rat
  dpi :: int

definition QUALITY_PRESETS :: "(string \<times> preset) list" where
  "QUALITY_PRESETS =
     [(''High (300 DPI)'', \<lparr>scale = 1, dpi = 300\<rparr>),
      (''Medium (150 DPI)'', \<lparr>scale = 1 / 2, dpi = 150\<rparr>),
      (''Low (72 DPI)'', \<lparr>scale = 1 / 4, dpi = 72\<rparr>)]"

definition estimate_pdf_size :: "int \<Rightarrow> rat \<Rightarrow> rat" where
  "estimate_pdf_size total_bytes sc = of_int total_bytes * max (min sc 1) (5 / 100)"

definition estimates :: "int \<Rightarrow> (string \<times> rat) list" where
  "estimates total_bytes =
     map (\<lambda>(label, p). (label, estimate_pdf_size total_bytes (scale p))) QUALITY_PRESETS"

subsection \<open>Selection (lines 85-88)\<close>

text \<open>
  \<open>quality_choice.split()[0]\<close>: the first whitespace-separated word. The labels of the
  presets are ASCII and their only whitespace is the space character.
\<close>

definition first_word :: "string \<Rightarrow> string" where
  "first_word s = takeWhile (\<lambda>c. c \<noteq> CHR '' '') (dropWhile (\<lambda>c. c = CHR '' '') s)"

subsection \<open>Downscaling (lines 100-108)\<close>

text \<open>Python's \<open>int(x)\<close> on a float: truncation towards zero.\<close>

definition int_of_float :: "rat \<Rightarrow> int" where
  "int_of_float x = (if 0 \<le> x then \<lfloor>x\<rfloor> else \<lceil>x\<rceil>)"

text \<open>Line 104.\<close>

definition new_size :: "int \<times> int \<Rightarrow> rat \<Rightarrow> int \<times> int" where
  "new_size sz sc =
     (case sz of (w, h) \<Rightarrow>
        (max 1 (int_of_float (of_int w * sc)), max 1 (int_of_float (of_int h * sc))))"

text \<open>
  \<open>im.resize(new_size, Image.LANCZOS)\<close>: the library returns a new image of the requested
  size and of the mode of \<open>im\<close>, or raises.
\<close>

definition resize :: "pil \<Rightarrow> image \<Rightarrow> int \<times> int \<Rightarrow> exn + image" where
  "resize L im sz =
     (case resize_LANCZOS L im sz of
        Inl e \<Rightarrow> Inl e
      | Inr px \<Rightarrow> Inr \<lparr>mode = mode im, im_size = sz, im_data = px\<rparr>)"

text \<open>
  The body of the loop, lines 102-108, for the image at address \<open>im\<close>: the address that
  is appended to \<open>processed\<close>, and the store afterwards.
\<close>

definition resample :: "pil \<Rightarrow> rat \<Rightarrow> store \<Rightarrow> ref \<Rightarrow> exn + (ref \<times> store)" where
  "resample L sc h im =
     (if sc < 1 then
        (case resize L (h ! im) (new_size (im_size (h ! im)) sc) of
           Inl e \<Rightarrow> Inl e
         | Inr im_resized \<Rightarrow> Inr (alloc h im_resized))
      else Inr (im, h))"

fun resize_loop ::
  "pil \<Rightarrow> rat \<Rightarrow> ref list \<Rightarrow> ref list \<Rightarrow> store \<Rightarrow> exn + (ref list \<times> store)" where
  "resize_loop L sc [] processed h = Inr (processed, h)"
| "resize_loop L sc (im # rest) processed h =
     (case resample L sc h im of
        Inl e \<Rightarrow> Inl e
      | Inr (r, h') \<Rightarrow> resize_loop L sc rest (processed @ [r]) h')"

subsection \<open>Writing the PDF (lines 111-120)\<close>

text \<open>
  \<open>first.save(fp, format="PDF", save_all=True, append_images=..., resolution=...)\<close>:
  the encoder writes \<open>first\<close> and then every appended image as one page each, all with
  the given resolution, into the buffer \<open>fp\<close>. When the encoder raises at some page,
  the pages written before it are already in the buffer.
\<close>

fun write_pages :: "pil \<Rightarrow> int \<Rightarrow> image list \<Rightarrow> page list \<Rightarrow> exn option \<times> page list" where
  "write_pages L res [] fp = (None, fp)"
| "write_pages L res (im # ims) fp =
     (case save_fault L im res of
        Some e \<Rightarrow> (Some e, fp)
      | None \<Rightarrow> write_pages L res ims (fp @ [\<lparr>page_image = im, page_resolution = res\<rparr>]))"

definition save_all ::
  "pil \<Rightarrow> store \<Rightarrow> ref \<Rightarrow> page list \<Rightarrow> ref list \<Rightarrow> int \<Rightarrow> exn option \<times> page list" where
  "save_all L h first fp append_images resolution =
     write_pages L resolution (map ((!) h) (first # append_images)) fp"

text \<open>
  Lines 111-120: \<open>processed[0]\<close> raises IndexError on the empty list; \<open>processed[1:]\<close>
  is the rest. The result is the buffer \<open>pdf_bytes\<close> when \<open>save\<close> returned, and the
  exception otherwise. \<open>pdf_bytes.seek(0)\<close> only moves the read position;
  \<open>pdf_bytes.getvalue()\<close> is the whole buffer.
\<close>

definition assemble :: "pil \<Rightarrow> store \<Rightarrow> ref list \<Rightarrow> int \<Rightarrow> exn + page list" where
  "assemble L h processed d =
     (case processed of
        [] \<Rightarrow> Inl IndexError
      | first # rest \<Rightarrow>
          (case save_all L h first [] rest d of
             (Some e, partial) \<Rightarrow> Inl e
           | (None, pdf_bytes) \<Rightarrow> Inr pdf_bytes))"

subsection \<open>The button handler (lines 97-130) and the script\<close>

text \<open>
  The \<open>try\<close> block: the document and the store, or the exception that left it. The
  objects that \<open>resize\<close> created before an exception are referenced by nothing
  afterwards and are dropped with it.
\<close>

definition convert_try :: "pil \<Rightarrow> rat \<Rightarrow> int \<Rightarrow> script_state \<Rightarrow> exn + (page list \<times> store)" where
  "convert_try L sc d s =
     (case resize_loop L sc (images s) [] (heap s) of
        Inl e \<Rightarrow> Inl e
      | Inr (processed, h) \<Rightarrow>
          (case assemble L h processed d of
             Inl e \<Rightarrow> Inl e
           | Inr pdf_bytes \<Rightarrow> Inr (pdf_bytes, h)))"

definition convert_handler ::
  "pil \<Rightarrow> rat \<Rightarrow> int \<Rightarrow> string \<Rightarrow> script_state \<Rightarrow> script_state" where
  "convert_handler L sc d quality_label s =
     (case convert_try L sc d s of
        Inr (pdf_bytes, h) \<Rightarrow>
          s\<lparr>heap := h,
            ui := ui s @
              [StSuccess ''Conversion successful!'',
               StDownload (''Download PDF ('' @ quality_label @ '' Quality)'') pdf_bytes
                 ''converted_images.pdf'' ''application/pdf'']\<rparr>
      | Inl e \<Rightarrow> s\<lparr>ui := ui s @ [StError (''Conversion failed: '' @ str e)]\<rparr>)"

text \<open>
  One run of the script: the uploaded files, the label the radio returns and whether the
  button was pressed. \<open>QUALITY_PRESETS[quality_choice]\<close> is outside every \<open>try\<close>, so a
  label that is no key ends the run with KeyError. A disabled button is never pressed.
\<close>

definition run_script :: "pil \<Rightarrow> uploaded_file list \<Rightarrow> string \<Rightarrow> bool \<Rightarrow> exn + script_state" where
  "run_script L uploaded_files quality_choice pressed =
     (let s = load_images L uploaded_files
      in case map_of QUALITY_PRESETS quality_choice of
           None \<Rightarrow> Inl (KeyError quality_choice)
         | Some selected \<Rightarrow>
             (let quality_label = first_word quality_choice;
                  disabled = (images s = []);
                  s1 = (if disabled
                        then s\<lparr>ui := ui s @ [StInfo ''Upload at least one image to enable conversion.'']\<rparr>
                        else s)
              in Inr (if pressed \<and> \<not> disabled
                      then convert_handler L (scale selected) (dpi selected) quality_label s1
                      else s1)))"

text \<open>The documents offered for download among the widgets.\<close>

fun downloads :: "widget list \<Rightarrow> page list list" where
  "downloads [] = []"
| "downloads (StDownload label bytes file_name mime # ws) = bytes # downloads ws"
| "downloads (w # ws) = downloads ws"

subsection \<open>The specification's formulas\<close>

text \<open>
  The specification's \<open>round\<close>, as Python rounds: to the nearest integer, a tie to the
  even neighbour.
\<close>

definition spec_round :: "rat \<Rightarrow> int" where
  "spec_round x =
     (let f = \<lfloor>x\<rfloor>; r = x - of_int f
      in if r < 1 / 2 then f else if 1 / 2 < r then f + 1 else if even f then f else f + 1)"

text \<open>The specification's \<open>max(1, round(original_dimension * scale))\<close> per axis.\<close>

definition spec_new_size :: "int \<times> int \<Rightarrow> rat \<Rightarrow> int \<times> int" where
  "spec_new_size sz sc =
     (case sz of (w, h) \<Rightarrow>
        (max 1 (spec_round (of_int w * sc)), max 1 (spec_round (of_int h * sc))))"


subsection \<open>What the loading loop is expected to leave\<close>




subsection \<open>Example inputs\<close>

text \<open>
  A small instance of the library, for the closed instances of the theorems below: a file
  without bytes does not open, every other file opens as a 100 x 100 RGB image, and the
  PDF encoder refuses every mode but RGB.
\<close>

definition example_pil :: pil where
  "example_pil =
     \<lparr>Image_open = (\<lambda>f. if uf_data f = [] then Inl (LibError ''cannot identify image file'')
                        else Inr \<lparr>mode = ''RGB'', im_size = (100, 100), im_data = uf_data f\<rparr>),
      convert = (\<lambda>img m. Inr (img\<lparr>mode := m\<rparr>)),
      resize_LANCZOS = (\<lambda>img sz. Inr (take 1 (im_data img))),
      save_fault = (\<lambda>img res. if mode img = ''RGB'' then None
                                else Some (LibError ''cannot write mode''))\<rparr>"

definition example_image :: "string \<Rightarrow> int \<Rightarrow> int \<Rightarrow> image" where
  "example_image m w h = \<lparr>mode = m, im_size = (w, h), im_data = [7]\<rparr>"

definition example_file :: "string \<Rightarrow> nat list \<Rightarrow> uploaded_file" where
  "example_file n d = \<lparr>uf_name = n, uf_size = int (length d), uf_data = d\<rparr>"



subsection \<open>Theorems\<close>



subsection \<open>Downscaling\<close>

lemma int_of_float_le:
  assumes "x \<le> of_int n" and "0 \<le> n"
  shows "int_of_float x \<le> n"
proof (cases "0 \<le> x")
  case True
  then show ?thesis using assms by (simp add: int_of_float_def floor_le_iff)
next
  case False
  then have "\<lceil>x\<rceil> \<le> 0" by (simp add: ceiling_le_zero)
  with assms(2) have "\<lceil>x\<rceil> \<le> n" by linarith
  with False show ?thesis by (simp only: int_of_float_def if_False)
qed

lemma new_size_positive: "1 \<le> fst (new_size sz sc) \<and> 1 \<le> snd (new_size sz sc)"
  by (cases sz) (simp add: new_size_def)

lemma resample_cases:
  assumes "resample L sc h im = Inr (r, h')"
  shows "(1 \<le> sc \<and> r = im \<and> h' = h)
       \<or> (sc < 1 \<and> r = length h
            \<and> (\<exists>px. resize_LANCZOS L (h ! im) (new_size (im_size (h ! im)) sc) = Inr px
                  \<and> h' = h @ [\<lparr>mode = mode (h ! im),
                                im_size = new_size (im_size (h ! im)) sc, im_data = px\<rparr>]))"
  using assms
  by (auto simp: resample_def resize_def alloc_def split: if_splits sum.splits)







text \<open>
  Claim C1, as amended. For every bitmap and every scale factor below 1, the resampler
  computes each output dimension as \<open>max(1, int(original_dimension * scale))\<close>, where
  \<open>int\<close> truncates towards zero (it does not round), independently for width and
  height; when the library's \<open>resize\<close> returns, the result is a new bitmap, at a fresh
  address, of exactly that size.
\<close>

theorem resample_downscale_size:
  assumes "sc < 1" and "im_size (h ! im) = (w, ht)"
    and "resize_LANCZOS L (h ! im) (new_size (w, ht) sc) = Inr px"
  shows "\<exists>r h'. resample L sc h im = Inr (r, h') \<and> length h \<le> r
           \<and> im_size (h' ! r) =
               (max 1 (int_of_float (of_int w * sc)), max 1 (int_of_float (of_int ht * sc)))"
  using assms by (simp add: resample_def resize_def alloc_def new_size_def)

theorem resample_downscale_size_witness:
  "(1 / 2 :: rat) < 1
   \<and> im_size ([example_image ''RGB'' 1000 800] ! 0) = (1000, 800)
   \<and> resize_LANCZOS example_pil ([example_image ''RGB'' 1000 800] ! 0)
        (new_size (1000, 800) (1 / 2)) = Inr [7]
   \<and> (\<exists>r h'. resample example_pil (1 / 2) [example_image ''RGB'' 1000 800] 0 = Inr (r, h')
         \<and> length [example_image ''RGB'' 1000 800] \<le> r \<and> im_size (h' ! r) = (500, 400))"
  using resample_downscale_size
    [of "1 / 2" "[example_image ''RGB'' 1000 800]" 0 1000 800 example_pil "[7]"]
  by (simp add: example_pil_def example_image_def int_of_float_def)

text \<open>
  Claim C1 as the specification words it, with \<open>round\<close> in place of \<open>int\<close>, fails: a
  side of 7 pixels at scale 0.25 gives \<open>7 * 0.25 = 1.75\<close>, which the script truncates
  to 1 and which rounds to 2, so a 7 x 7 bitmap is resampled to 1 x 1 and not to 2 x 2.
\<close>

theorem new_size_truncates_counterexample:
  "resample example_pil (1 / 4) [example_image ''RGB'' 7 7] 0
     = Inr (1, [example_image ''RGB'' 7 7,
                \<lparr>mode = ''RGB'', im_size = (1, 1), im_data = [7]\<rparr>])
   \<and> new_size (7, 7) (1 / 4) = (1, 1)
   \<and> spec_new_size (7, 7) (1 / 4) = (2, 2)
   \<and> new_size (7, 7) (1 / 4) \<noteq> spec_new_size (7, 7) (1 / 4)"
proof -
  have n: "new_size (7, 7) (1 / 4) = (1, 1)"
    by code_simp
  have s: "spec_new_size (7, 7) (1 / 4) = (2, 2)"
    by code_simp
  have r: "resample example_pil (1 / 4) [example_image ''RGB'' 7 7] 0
     = Inr (1, [example_image ''RGB'' 7 7,
                \<lparr>mode = ''RGB'', im_size = (1, 1), im_data = [7]\<rparr>])"
    by (simp add: resample_def resize_def alloc_def n example_pil_def example_image_def)
  from r n s show ?thesis by simp
qed



text \<open>
  Claim C8. The dimensions that line 104 computes are at least 1 on each axis for every
  input size and every scale factor; a 2 x 2 input at scale 0.25 gives 1 x 1. Hence the
  bitmap the resampler returns is at least 1 x 1 whenever the scale is below 1, whatever
  the input, and at a scale of 1 or more, where the input is passed through, whenever
  the input is at least 1 x 1, as every decoded bitmap is.
\<close>

theorem resample_size_positive:
  "1 \<le> fst (new_size sz sc) \<and> 1 \<le> snd (new_size sz sc)
   \<and> new_size (2, 2) (1 / 4) = (1, 1)
   \<and> (\<forall>r h'. resample L sc h im = Inr (r, h') \<longrightarrow>
         (sc < 1 \<or> (1 \<le> fst (im_size (h ! im)) \<and> 1 \<le> snd (im_size (h ! im)))) \<longrightarrow>
         1 \<le> fst (im_size (h' ! r)) \<and> 1 \<le> snd (im_size (h' ! r)))"
proof (intro conjI allI impI)
  show "1 \<le> fst (new_size sz sc)" "1 \<le> snd (new_size sz sc)"
    using new_size_positive [of sz sc] by simp_all
  show "new_size (2, 2) (1 / 4) = (1, 1)"
    by (simp add: new_size_def int_of_float_def)
next
  fix r h'
  assume res: "resample L sc h im = Inr (r, h')"
    and ok: "sc < 1 \<or> (1 \<le> fst (im_size (h ! im)) \<and> 1 \<le> snd (im_size (h ! im)))"
  from resample_cases [OF res] ok
  show "1 \<le> fst (im_size (h' ! r))" "1 \<le> snd (im_size (h' ! r))"
    using new_size_positive [of "im_size (h ! im)" sc] by auto
qed

theorem resample_size_positive_witness:
  "resample example_pil (1 / 4) [example_image ''RGB'' 2 2] 0
     = Inr (1, [example_image ''RGB'' 2 2, \<lparr>mode = ''RGB'', im_size = (1, 1), im_data = [7]\<rparr>])
   \<and> (1 / 4 :: rat) < 1
   \<and> (1 :: int) \<le> fst (im_size ([example_image ''RGB'' 2 2,
        \<lparr>mode = ''RGB'', im_size = (1, 1), im_data = [7]\<rparr>] ! 1))
   \<and> (1 :: int) \<le> snd (im_size ([example_image ''RGB'' 2 2,
        \<lparr>mode = ''RGB'', im_size = (1, 1), im_data = [7]\<rparr>] ! 1))"
  using resample_size_positive
    [of "(2, 2)" "1 / 4" example_pil "[example_image ''RGB'' 2 2]" 0]
  by (simp add: resample_def resize_def alloc_def new_size_def int_of_float_def
      example_pil_def example_image_def)

text \<open>
  Claim C10. Downscaling never enlarges: for a bitmap of width and height at least 1 and
  a scale factor \<open>s\<close> with \<open>0 < s < 1\<close>, each output dimension
  \<open>max(1, int(dimension * s))\<close> is at most the input dimension.
\<close>

theorem new_size_le_input:
  assumes "1 \<le> w" and "1 \<le> ht" and "0 < s" and "s < 1"
  shows "fst (new_size (w, ht) s) \<le> w \<and> snd (new_size (w, ht) s) \<le> ht"
proof -
  have a: "int_of_float (of_int d * s) \<le> d" if "1 \<le> d" for d :: int
  proof (rule int_of_float_le)
    from that have "0 < (of_int d :: rat)" by simp
    with \<open>s < 1\<close> have "of_int d * s < of_int d * 1"
      by (simp only: mult_strict_left_mono)
    then show "of_int d * s \<le> of_int d" by simp
    from that show "0 \<le> d" by simp
  qed
  from a [OF assms(1)] a [OF assms(2)] assms(1,2) show ?thesis
    by (simp add: new_size_def)
qed

theorem new_size_le_input_witness:
  "(1 :: int) \<le> 1000 \<and> (1 :: int) \<le> 800 \<and> (0 :: rat) < 1 / 2 \<and> (1 / 2 :: rat) < 1
   \<and> new_size (1000, 800) (1 / 2) = (500, 400)
   \<and> fst (new_size (1000, 800) (1 / 2)) \<le> 1000 \<and> snd (new_size (1000, 800) (1 / 2)) \<le> 800"
  using new_size_le_input [of 1000 800 "1 / 2"]
  by (simp add: new_size_def int_of_float_def)

subsection \<open>Writing the PDF\<close>












subsection \<open>Loading\<close>









subsection \<open>The handler and the script\<close>




text \<open>
  Claim C6. The preset registry is an ordered table of exactly three entries: High
  (scale 1.0, resolution 300), Medium (scale 0.5, resolution 150) and Low (scale 0.25,
  resolution 72). Every scale lies between 0.05 and 1.0 and every resolution is one of
  300, 150 and 72. The registry is a constant of the script: no statement assigns to it
  or to one of its entries, and the model only looks entries up.
\<close>

theorem quality_presets_fixed:
  "QUALITY_PRESETS =
     [(''High (300 DPI)'', \<lparr>scale = 1, dpi = 300\<rparr>),
      (''Medium (150 DPI)'', \<lparr>scale = 1 / 2, dpi = 150\<rparr>),
      (''Low (72 DPI)'', \<lparr>scale = 1 / 4, dpi = 72\<rparr>)]
   \<and> length QUALITY_PRESETS = 3
   \<and> map (first_word \<circ> fst) QUALITY_PRESETS = [''High'', ''Medium'', ''Low'']
   \<and> (\<forall>(label, p)\<in>set QUALITY_PRESETS.
         5 / 100 \<le> scale p \<and> scale p \<le> 1 \<and> dpi p \<in> {300, 150, 72})"
  by (simp add: QUALITY_PRESETS_def first_word_def)

theorem quality_presets_fixed_witness:
  "(''Medium (150 DPI)'', \<lparr>scale = 1 / 2, dpi = 150\<rparr>) \<in> set QUALITY_PRESETS
   \<and> (5 / 100 :: rat) \<le> 1 / 2 \<and> (1 / 2 :: rat) \<le> 1 \<and> (150 :: int) \<in> {300, 150, 72}"
proof -
  have m: "(''Medium (150 DPI)'', \<lparr>scale = 1 / 2, dpi = 150\<rparr>) \<in> set QUALITY_PRESETS"
    by (simp add: QUALITY_PRESETS_def)
  from quality_presets_fixed [THEN conjunct2, THEN conjunct2, THEN conjunct2, THEN bspec, OF m]
    m show ?thesis by simp
qed

text \<open>
  Claim C9. End to end: two uploaded files that open as 100 x 100 RGB images, the preset
  "Medium (150 DPI)" selected and the button pressed; when the library resizes both
  images and the encoder accepts both pages, the script offers exactly one document, of
  exactly 2 pages, each with resolution 150 and pixel dimensions 50 x 50.
\<close>

theorem convert_two_images_medium:
  assumes "Image_open L f1 = Inr im1" and "mode im1 = ''RGB''" and "im_size im1 = (100, 100)"
    and "Image_open L f2 = Inr im2" and "mode im2 = ''RGB''" and "im_size im2 = (100, 100)"
    and "resize_LANCZOS L im1 (50, 50) = Inr px1"
    and "resize_LANCZOS L im2 (50, 50) = Inr px2"
    and "save_fault L \<lparr>mode = ''RGB'', im_size = (50, 50), im_data = px1\<rparr> 150 = None"
    and "save_fault L \<lparr>mode = ''RGB'', im_size = (50, 50), im_data = px2\<rparr> 150 = None"
  shows "\<exists>s doc. run_script L [f1, f2] ''Medium (150 DPI)'' True = Inr s
           \<and> downloads (ui s) = [doc]
           \<and> length doc = 2
           \<and> (\<forall>p\<in>set doc. page_resolution p = 150 \<and> im_size (page_image p) = (50, 50))"
proof -
  have sz: "new_size (100, 100) (1 / 2) = (50, 50)"
    by (simp add: new_size_def int_of_float_def)
  have sel: "map_of QUALITY_PRESETS ''Medium (150 DPI)'' = Some \<lparr>scale = 1 / 2, dpi = 150\<rparr>"
    by (simp add: QUALITY_PRESETS_def)
  have ld: "load_images L [f1, f2] =
      \<lparr>heap = [im1, im2], images = [0, Suc 0],
       total_image_size_bytes = uf_size f1 + uf_size f2, ui = []\<rparr>"
    using assms(1-6)
    by (simp add: load_images_def initial_state_def load_one_def open_rgb_def alloc_def)
  have lp: "resize_loop L (1 / 2) [0, Suc 0] [] [im1, im2] =
      Inr ([2, 3], [im1, im2,
        \<lparr>mode = ''RGB'', im_size = (50, 50), im_data = px1\<rparr>,
        \<lparr>mode = ''RGB'', im_size = (50, 50), im_data = px2\<rparr>])"
    using assms(2,3,5,6,7,8) by (simp add: resample_def resize_def alloc_def sz)
  have ct: "convert_try L (1 / 2) 150 (load_images L [f1, f2]) =
      Inr ([\<lparr>page_image = \<lparr>mode = ''RGB'', im_size = (50, 50), im_data = px1\<rparr>,
              page_resolution = 150\<rparr>,
            \<lparr>page_image = \<lparr>mode = ''RGB'', im_size = (50, 50), im_data = px2\<rparr>,
              page_resolution = 150\<rparr>],
           [im1, im2,
            \<lparr>mode = ''RGB'', im_size = (50, 50), im_data = px1\<rparr>,
            \<lparr>mode = ''RGB'', im_size = (50, 50), im_data = px2\<rparr>])"
    using assms(9,10)
    by (simp add: convert_try_def ld lp assemble_def save_all_def del: resize_loop.simps)
  have ne: "images (load_images L [f1, f2]) \<noteq> []"
    by (simp add: ld)
  have u: "ui (load_images L [f1, f2]) = []"
    by (simp add: ld)
  show ?thesis
    by (simp add: run_script_def sel convert_handler_def ct ne u Let_def)
qed

theorem convert_two_images_medium_witness:
  "Image_open example_pil (example_file ''a.png'' [1, 2])
     = Inr \<lparr>mode = ''RGB'', im_size = (100, 100), im_data = [1, 2]\<rparr>
   \<and> Image_open example_pil (example_file ''b.png'' [3])
     = Inr \<lparr>mode = ''RGB'', im_size = (100, 100), im_data = [3]\<rparr>
   \<and> resize_LANCZOS example_pil \<lparr>mode = ''RGB'', im_size = (100, 100), im_data = [1, 2]\<rparr>
       (50, 50) = Inr [1]
   \<and> resize_LANCZOS example_pil \<lparr>mode = ''RGB'', im_size = (100, 100), im_data = [3]\<rparr>
       (50, 50) = Inr [3]
   \<and> save_fault example_pil \<lparr>mode = ''RGB'', im_size = (50, 50), im_data = [1]\<rparr> 150 = None
   \<and> save_fault example_pil \<lparr>mode = ''RGB'', im_size = (50, 50), im_data = [3]\<rparr> 150 = None
   \<and> (\<exists>s. run_script example_pil [example_file ''a.png'' [1, 2], example_file ''b.png'' [3]]
             ''Medium (150 DPI)'' True = Inr s
         \<and> downloads (ui s)
             = [[\<lparr>page_image = \<lparr>mode = ''RGB'', im_size = (50, 50), im_data = [1]\<rparr>,
                  page_resolution = 150\<rparr>,
                 \<lparr>page_image = \<lparr>mode = ''RGB'', im_size = (50, 50), im_data = [3]\<rparr>,
                  page_resolution = 150\<rparr>]])"
proof -
  let ?f1 = "example_file ''a.png'' [1, 2]"
  let ?f2 = "example_file ''b.png'' [3]"
  let ?im1 = "\<lparr>mode = ''RGB'', im_size = (100, 100), im_data = [1, 2]\<rparr>"
  let ?im2 = "\<lparr>mode = ''RGB'', im_size = (100, 100), im_data = [3]\<rparr>"
  have o1: "Image_open example_pil ?f1 = Inr ?im1"
    by (simp add: example_pil_def example_file_def)
  have o2: "Image_open example_pil ?f2 = Inr ?im2"
    by (simp add: example_pil_def example_file_def)
  have m1: "mode ?im1 = ''RGB''" and s1: "im_size ?im1 = (100, 100)"
    and m2: "mode ?im2 = ''RGB''" and s2: "im_size ?im2 = (100, 100)"
    by simp_all
  have r1: "resize_LANCZOS example_pil ?im1 (50, 50) = Inr [1]"
    by (simp add: example_pil_def)
  have r2: "resize_LANCZOS example_pil ?im2 (50, 50) = Inr [3]"
    by (simp add: example_pil_def)
  have e1: "save_fault example_pil \<lparr>mode = ''RGB'', im_size = (50, 50), im_data = [1]\<rparr> 150
      = None"
    by (simp add: example_pil_def)
  have e2: "save_fault example_pil \<lparr>mode = ''RGB'', im_size = (50, 50), im_data = [3]\<rparr> 150
      = None"
    by (simp add: example_pil_def)
  from convert_two_images_medium [OF o1 m1 s1 o2 m2 s2 r1 r2 e1 e2]
  obtain s doc where run: "run_script example_pil [?f1, ?f2] ''Medium (150 DPI)'' True = Inr s"
    and dl: "downloads (ui s) = [doc]"
    by blast
  have "run_script example_pil [?f1, ?f2] ''Medium (150 DPI)'' True =
      Inr \<lparr>heap = [?im1, ?im2,
                   \<lparr>mode = ''RGB'', im_size = (50, 50), im_data = [1]\<rparr>,
                   \<lparr>mode = ''RGB'', im_size = (50, 50), im_data = [3]\<rparr>],
            images = [0, 1], total_image_size_bytes = 3,
            ui = [StSuccess ''Conversion successful!'',
                  StDownload ''Download PDF (Medium Quality)''
                    [\<lparr>page_image = \<lparr>mode = ''RGB'', im_size = (50, 50), im_data = [1]\<rparr>,
                      page_resolution = 150\<rparr>,
                     \<lparr>page_image = \<lparr>mode = ''RGB'', im_size = (50, 50), im_data = [3]\<rparr>,
                      page_resolution = 150\<rparr>]
                    ''converted_images.pdf'' ''application/pdf'']\<rparr>"
    by (simp add: run_script_def load_images_def initial_state_def load_one_def open_rgb_def
        alloc_def QUALITY_PRESETS_def first_word_def convert_handler_def convert_try_def
        resample_def resize_def new_size_def int_of_float_def assemble_def save_all_def
        example_pil_def example_file_def Let_def)
  with run have "downloads (ui s)
      = [[\<lparr>page_image = \<lparr>mode = ''RGB'', im_size = (50, 50), im_data = [1]\<rparr>,
            page_resolution = 150\<rparr>,
          \<lparr>page_image = \<lparr>mode = ''RGB'', im_size = (50, 50), im_data = [3]\<rparr>,
            page_resolution = 150\<rparr>]]"
    by auto
  with run have "\<exists>s. run_script example_pil [?f1, ?f2] ''Medium (150 DPI)'' True = Inr s
         \<and> downloads (ui s)
             = [[\<lparr>page_image = \<lparr>mode = ''RGB'', im_size = (50, 50), im_data = [1]\<rparr>,
                  page_resolution = 150\<rparr>,
                 \<lparr>page_image = \<lparr>mode = ''RGB'', im_size = (50, 50), im_data = [3]\<rparr>,
                  page_resolution = 150\<rparr>]]"
    by blast
  with o1 o2 r1 r2 e1 e2 show ?thesis by (intro conjI)
qed

end
